theory Spec2Isabelle
  imports Complex_Main "HOL-Library.Word"
begin

unbundle bit_operations_syntax

section \<open>ExecTask of Salus: resource estimation, prepare, run and finish\<close>

text \<open>
  A shallow embedding of \<^verbatim>\<open>src/oplibraries/tensorflow/v2/exectask.cpp\<close>.
  The task object is a record that every member function takes and returns; the external
  collaborators (session tracker, shape inference, kernel registry, device manager,
  executor state, the device that runs the kernel) are records of the values their calls
  return; callbacks and calls on collaborators are events of a trace, in program order.
  The warnings and errors that \<^verbatim>\<open>estimatedUsage\<close> logs are part of its result; the
  other log lines and the \<^verbatim>\<open>NodeExecStats\<close> bookkeeping have no influence on control
  flow or on the values below and are left out.
  \<^verbatim>\<open>size_t\<close> is a 64-bit word, \<^verbatim>\<open>int\<close> in the shift is a 32-bit word. The
  \<^verbatim>\<open>double\<close> values of the shape-inference path are whole numbers and are rounded as
  the machine rounds them; the session usage and its scaled copy are real numbers.
\<close>

subsection \<open>Devices and resources\<close>

datatype DeviceType = CPU | GPU

record DeviceSpec =
  type :: DeviceType
  id_no :: int

text \<open>
  Only \<^verbatim>\<open>ResourceType::MEMORY\<close> occurs in the task; \<^verbatim>\<open>execution/resources.h\<close>
  declares further kinds.
\<close>

datatype ResourceType = COMPUTE | MEMORY

record ResourceTag =
  rtype :: ResourceType
  device :: DeviceSpec

type_synonym Resources = "ResourceTag \<rightharpoonup> real"

text \<open>
  Modelled from the spec: \<^verbatim>\<open>resources::merge\<close> and \<^verbatim>\<open>resources::scale\<close>
  (\<^verbatim>\<open>execution/resources.h\<close> and its implementation are not among the sources).
  The spec gives them as the point-wise sum of two maps and the point-wise product of a
  map with a factor.
\<close>

definition merge :: "Resources \<Rightarrow> Resources \<Rightarrow> Resources" where
  "merge lhs rhs = (\<lambda>tag. case (lhs tag, rhs tag) of
       (None, None) \<Rightarrow> None
     | (Some a, None) \<Rightarrow> Some a
     | (None, Some b) \<Rightarrow> Some b
     | (Some a, Some b) \<Rightarrow> Some (a + b))"

definition scale :: "Resources \<Rightarrow> real \<Rightarrow> Resources" where
  "scale lhs k = (\<lambda>tag. map_option (\<lambda>v. v * k) (lhs tag))"

record SessionUsage =
  temporary :: Resources
  persistant :: Resources

subsection \<open>Status codes, devices, kernels\<close>

datatype Code = OK | INVALID_ARGUMENT | NOT_FOUND | RESOURCE_EXHAUSTED | INTERNAL

record Device =
  name :: string
  RequiresRecordingAccessedTensors :: bool

record DeviceItem =
  item_device :: Device
  device_record_tensor_access :: bool

record OpKernel =
  kernel_id :: nat
  AsAsync :: bool

record ResourceContext =
  spec :: DeviceSpec
  ticket :: nat
  resMon :: "nat option"

datatype MemoryType = DEVICE_MEMORY | HOST_MEMORY

text \<open>
  One output of the node as shape inference and the node definition describe it:
  \<open>shape = None\<close> when \<^verbatim>\<open>RankKnown\<close> is false, otherwise the dimensions, each
  \<open>None\<close> when \<^verbatim>\<open>ValueKnown\<close> is false; \<open>dtype_size\<close> is
  \<^verbatim>\<open>DataTypeSize(node->output_type(i))\<close>; \<open>mtype\<close> is \<^verbatim>\<open>output_mtypes[i]\<close>,
  read only when the memory-type lookup succeeded.
\<close>

record OutputInfo =
  shape :: "int option list option"
  dtype_size :: int
  mtype :: MemoryType

datatype Entry = NoValue | TensorValue nat

record TaggedNode =
  is_dead :: bool
  IsTransferNode :: bool
  input_is_ref :: "bool list"
  num_outputs :: nat

subsection \<open>The task\<close>

record ExecTask =
  failureTimes :: int
  maxFailures :: int
  cachedUsage :: "DeviceSpec \<rightharpoonup> Resources"
  supportedTypes :: "DeviceType list"
  rctx :: ResourceContext
  ditem :: "DeviceItem option"
  op_kernel :: "OpKernel option"
  kernel_is_async :: bool
  has_ref_input :: bool
  tagged_node :: TaggedNode
  outputs :: "Entry list"
  completed :: bool

text \<open>
  What stops the program instead of returning: a failed \<^verbatim>\<open>assert\<close>, a failed
  \<^verbatim>\<open>CHECK\<close>, a shift of a 32-bit \<^verbatim>\<open>int\<close> by 32 or more (undefined
  behaviour), a use of \<^verbatim>\<open>ditem.device\<close> before any successful \<^verbatim>\<open>prepare\<close>.
\<close>

datatype fault = AssertionFailed | CheckFailed | UndefinedShift | NullDevice

subsection \<open>LookupDevice\<close>

function to_string_nat :: "nat \<Rightarrow> string" where
  "to_string_nat n =
     (if n < 10 then [''0123456789'' ! n]
      else to_string_nat (n div 10) @ [''0123456789'' ! (n mod 10)])"
  by pat_completeness auto
termination
  by (relation "measure (\<lambda>n. n)") auto

definition to_string :: "int \<Rightarrow> string" where
  "to_string i = (if i < 0 then CHR ''-'' # to_string_nat (nat (- i)) else to_string_nat (nat i))"

type_synonym DeviceMgr = "string \<Rightarrow> Code + Device"

definition device_name_of :: "DeviceSpec \<Rightarrow> string" where
  "device_name_of sp =
     (case type sp of CPU \<Rightarrow> ''CPU:'' | GPU \<Rightarrow> ''GPU:'') @ to_string (id_no sp)"

definition LookupDevice :: "DeviceMgr \<Rightarrow> DeviceSpec \<Rightarrow> Code + DeviceItem" where
  "LookupDevice deviceMgr sp =
     (case deviceMgr (device_name_of sp) of
        Inl err \<Rightarrow> Inl err
      | Inr tfdev \<Rightarrow>
          Inr \<lparr>item_device = tfdev,
               device_record_tensor_access = RequiresRecordingAccessedTensors tfdev\<rparr>)"

subsection \<open>estimatedUsage\<close>

record EstimateEnv =
  session_usage :: "SessionUsage option"
  shapeForNode :: "OutputInfo list option"
  est_deviceMgr :: DeviceMgr
  MemoryTypesForNode :: Code

text \<open>
  \<^verbatim>\<open>1 << n\<close> on \<^verbatim>\<open>int\<close>, then the conversion to \<^verbatim>\<open>uint64_t\<close>:
  the shift is undefined outside \<open>0 \<le> n < 32\<close>; at \<open>n = 31\<close> the result is the most
  negative \<^verbatim>\<open>int\<close>, which the conversion sign-extends.
\<close>

definition shl_int :: "int \<Rightarrow> int option" where
  "shl_int n = (if 0 \<le> n \<and> n < 32 then Some (sint (push_bit (nat n) (1 :: 32 word))) else None)"

definition to_uint64 :: "int \<Rightarrow> nat" where
  "to_uint64 v = unat (word_of_int v :: 64 word)"

text \<open>
  The warnings and errors \<^verbatim>\<open>estimatedUsage\<close> writes to the log, with the arguments
  that tell them apart: \<^verbatim>\<open>WARN("Failure time exceeds maximum failures: {} (max {})")\<close>,
  \<^verbatim>\<open>ERR("No session usage found ...")\<close>,
  \<^verbatim>\<open>WARN("Shape information not available for node: {}")\<close>,
  \<^verbatim>\<open>ERR("Cannot find device for {}: {}")\<close> (written by \<^verbatim>\<open>LookupDevice\<close>),
  \<^verbatim>\<open>WARN("Kernel not found on device {}, ...")\<close>,
  \<^verbatim>\<open>WARN("{}-th output of node {} has unknown rank")\<close> and \<^verbatim>\<open>WARN("    Unknown")\<close>.
\<close>

datatype log_line =
    WARN_failure_time_exceeds int int
  | ERR_no_session_usage
  | WARN_shape_information_not_available
  | ERR_cannot_find_device
  | WARN_kernel_not_found
  | WARN_unknown_rank nat
  | WARN_unknown_dimension

text \<open>
  The short-cut taken when the task has failed before: the session's usage, merged and
  scaled, overwrites \<^verbatim>\<open>cachedUsage[dev]\<close>.
\<close>

definition failed_before ::
  "EstimateEnv \<Rightarrow> DeviceSpec \<Rightarrow> ExecTask \<Rightarrow> fault + (ExecTask \<times> log_line list)" where
  "failed_before env dev t =
     (if failureTimes t > 0 then
        (case session_usage env of
           Some rm \<Rightarrow>
             (let merged = merge (temporary rm) (persistant rm);
                  f = (if failureTimes t > maxFailures t then maxFailures t else failureTimes t);
                  lg = (if failureTimes t > maxFailures t
                        then [WARN_failure_time_exceeds (failureTimes t) (maxFailures t)] else [])
              in case shl_int (maxFailures t + 1 - f) of
                   None \<Rightarrow> Inl UndefinedShift
                 | Some sc \<Rightarrow>
                     Inr (t\<lparr>cachedUsage :=
                            (cachedUsage t)(dev \<mapsto> scale merged (1 / real (to_uint64 sc)))\<rparr>,
                          lg))
         | None \<Rightarrow> Inr (t, [ERR_no_session_usage]))
      else Inr (t, []))"

text \<open>
  In the slow path every \<^verbatim>\<open>double\<close> is a whole number that is not negative: the map
  starts empty, a subtotal is a \<^verbatim>\<open>size_t\<close> converted to \<^verbatim>\<open>double\<close>, and the sum of
  two such values is rounded to such a value. They are represented by natural numbers.
  \<open>round_to_double n\<close> is the \<^verbatim>\<open>double\<close> nearest to \<open>n\<close>, ties going to the even
  significand: below \<open>2 ^ 53\<close> every whole number is a \<^verbatim>\<open>double\<close>; above, the lowest
  \<open>bit_length n - 53\<close> bits are rounded away. (The sums stay far below the largest
  \<^verbatim>\<open>double\<close>.)
\<close>

function bit_length :: "nat \<Rightarrow> nat" where
  "bit_length n = (if n = 0 then 0 else Suc (bit_length (n div 2)))"
  by pat_completeness auto
termination
  by (relation "measure (\<lambda>n. n)") auto

definition round_to_double :: "nat \<Rightarrow> nat" where
  "round_to_double n =
     (if n < 2 ^ 53 then n
      else (let e = bit_length n - 53;
                q = n div 2 ^ e;
                r = n mod 2 ^ e;
                half = 2 ^ (e - 1)
            in if r < half \<or> (r = half \<and> even q) then q * 2 ^ e else (q + 1) * 2 ^ e))"

type_synonym Sizes = "ResourceTag \<rightharpoonup> nat"

definition as_resources :: "Sizes \<Rightarrow> Resources" where
  "as_resources sizes = (\<lambda>tag. map_option real (sizes tag))"

text \<open>
  \<^verbatim>\<open>res[tag] += subtotal\<close>: a missing entry is created with value 0 first; the sum is
  rounded to \<^verbatim>\<open>double\<close>.
\<close>

definition add_to :: "Sizes \<Rightarrow> ResourceTag \<Rightarrow> nat \<Rightarrow> Sizes" where
  "add_to res tag v =
     res(tag \<mapsto> round_to_double ((case res tag of None \<Rightarrow> 0 | Some old \<Rightarrow> old) + v))"

text \<open>
  The inner loop over the dimensions of one output: \<^verbatim>\<open>count *= val\<close> on \<^verbatim>\<open>size_t\<close>
  for a known dimension, a warning and \<^verbatim>\<open>continue\<close> for an unknown one.
\<close>

fun count_dims :: "int option list \<Rightarrow> 64 word \<Rightarrow> 64 word \<times> log_line list" where
  "count_dims [] count = (count, [])"
| "count_dims (None # dims) count =
     (case count_dims dims count of (c, lg) \<Rightarrow> (c, WARN_unknown_dimension # lg))"
| "count_dims (Some val # dims) count = count_dims dims (count * word_of_int val)"

text \<open>
  \<^verbatim>\<open>double subtotal = count * tf::DataTypeSize(dtype)\<close>: the product is taken on
  \<^verbatim>\<open>size_t\<close> and converted to \<^verbatim>\<open>double\<close>.
\<close>

definition subtotal :: "64 word \<Rightarrow> int \<Rightarrow> nat" where
  "subtotal count dsize = round_to_double (unat (count * word_of_int dsize))"

text \<open>The loop over the outputs; \<open>i\<close> is the index of the first output of the list.\<close>

fun charge_outputs ::
  "bool \<Rightarrow> ResourceTag \<Rightarrow> ResourceTag \<Rightarrow> nat \<Rightarrow> OutputInfo list \<Rightarrow> Sizes
     \<Rightarrow> Sizes \<times> log_line list" where
  "charge_outputs mtype_ok devTag cpuTag i [] res = (res, [])"
| "charge_outputs mtype_ok devTag cpuTag i (out # outs) res =
     (case shape out of
        None \<Rightarrow>
          (case charge_outputs mtype_ok devTag cpuTag (Suc i) outs res of
             (res', lg) \<Rightarrow> (res', WARN_unknown_rank i # lg))
      | Some dims \<Rightarrow>
          (case count_dims dims 1 of
             (count, lg1) \<Rightarrow>
               (case charge_outputs mtype_ok devTag cpuTag (Suc i) outs
                       (if mtype_ok \<and> mtype out = HOST_MEMORY
                        then add_to res cpuTag (subtotal count (dtype_size out))
                        else add_to res devTag (subtotal count (dtype_size out))) of
                  (res', lg) \<Rightarrow> (res', lg1 @ lg))))"

definition mtypeStatus_ok :: "EstimateEnv \<Rightarrow> DeviceSpec \<Rightarrow> bool" where
  "mtypeStatus_ok env dev =
     (case LookupDevice (est_deviceMgr env) dev of
        Inl err \<Rightarrow> False
      | Inr di \<Rightarrow> MemoryTypesForNode env = OK)"

text \<open>What the lookup of the memory types logs.\<close>

definition mtypeStatus_log :: "EstimateEnv \<Rightarrow> DeviceSpec \<Rightarrow> log_line list" where
  "mtypeStatus_log env dev =
     (case LookupDevice (est_deviceMgr env) dev of
        Inl err \<Rightarrow> [ERR_cannot_find_device, WARN_kernel_not_found]
      | Inr di \<Rightarrow> (if MemoryTypesForNode env = OK then [] else [WARN_kernel_not_found]))"

text \<open>
  The slow path. \<^verbatim>\<open>auto &res = cachedUsage[dev]\<close> creates the cache entry, so the
  result is cached even when no shape information exists. Both tags are built from
  \<open>dev\<close>, as in the source.
\<close>

definition slow_path ::
  "EstimateEnv \<Rightarrow> DeviceSpec \<Rightarrow> ExecTask \<Rightarrow> Resources \<times> ExecTask \<times> log_line list" where
  "slow_path env dev t =
     (case shapeForNode env of
        None \<Rightarrow>
          (Map.empty, t\<lparr>cachedUsage := (cachedUsage t)(dev \<mapsto> Map.empty)\<rparr>,
           [WARN_shape_information_not_available])
      | Some outs \<Rightarrow>
          (let devTag = \<lparr>rtype = MEMORY, device = dev\<rparr>;
               cpuTag = \<lparr>rtype = MEMORY, device = dev\<rparr>
           in case charge_outputs (mtypeStatus_ok env dev) devTag cpuTag 0 outs Map.empty of
                (sizes, lg) \<Rightarrow>
                  (as_resources sizes,
                   t\<lparr>cachedUsage := (cachedUsage t)(dev \<mapsto> as_resources sizes)\<rparr>,
                   mtypeStatus_log env dev @ lg)))"

text \<open>\<^verbatim>\<open>estimatedUsage\<close> with what it logs.\<close>

definition estimatedUsage_logged ::
  "EstimateEnv \<Rightarrow> DeviceSpec \<Rightarrow> ExecTask
     \<Rightarrow> fault + (Resources \<times> ExecTask \<times> log_line list)" where
  "estimatedUsage_logged env dev t =
     (case failed_before env dev t of
        Inl stop \<Rightarrow> Inl stop
      | Inr (t1, lg) \<Rightarrow>
          (case cachedUsage t1 dev of
             Some res \<Rightarrow> Inr (res, t1, lg)
           | None \<Rightarrow>
               (case slow_path env dev t1 of
                  (res, t2, lg2) \<Rightarrow> Inr (res, t2, lg @ lg2))))"

text \<open>\<^verbatim>\<open>estimatedUsage\<close>: the map it returns and the task it leaves.\<close>

definition estimatedUsage ::
  "EstimateEnv \<Rightarrow> DeviceSpec \<Rightarrow> ExecTask \<Rightarrow> fault + (Resources \<times> ExecTask)" where
  "estimatedUsage env dev t =
     (case estimatedUsage_logged env dev t of
        Inl stop \<Rightarrow> Inl stop
      | Inr (res, t', lg) \<Rightarrow> Inr (res, t'))"

subsection \<open>Calls and callbacks as events\<close>

text \<open>
  Every call the task makes on a collaborator that a claim speaks about, and every
  callback it fires, in the order the program makes them. \<open>NodeDoneCall s inl\<close> carries
  the status handed to \<^verbatim>\<open>NodeDone\<close> and whether \<^verbatim>\<open>inline_ready\<close> was passed;
  \<open>PropagateOutputsCall outs\<close> carries the outputs handed over; \<open>ResMonFree m k\<close> is
  \<^verbatim>\<open>resMon->free(ticket)\<close> on monitor \<open>m\<close>.
\<close>

datatype event =
    LookupDeviceCall string
  | CreatePerOpAllocDeviceCall
  | CreateFRuntimeCall
  | SetResourceContextCall ResourceContext
  | FindKernelCall
  | ResMonFree nat nat
  | DeleteKernelCall OpKernel
  | SetupKernelCall
  | SetAllocAttrCall
  | PrepareInputsCall
  | ClearInputs
  | ComputeCall
  | ComputeAsyncCall
  | ProcessOutputsCall
  | PropagateOutputsCall "Entry list"
  | ConsumeAccessedTensorsCall
  | MaybeMarkCompletedCall
  | NodeDoneCall Code bool
  | ExecutorFinishCall
  | NotifyFinishedOps
  | Launched
  | Done
  | MemFailure

fun on_monitor :: "event \<Rightarrow> bool" where
  "on_monitor (ResMonFree m k) = True"
| "on_monitor e = False"

fun is_delete_kernel :: "event \<Rightarrow> bool" where
  "is_delete_kernel (DeleteKernelCall k) = True"
| "is_delete_kernel e = False"

fun is_propagate :: "event \<Rightarrow> bool" where
  "is_propagate (PropagateOutputsCall outs) = True"
| "is_propagate e = False"

text \<open>\<open>precedes a b tr\<close>: \<open>a\<close> occurs in \<open>tr\<close> strictly before the first \<open>b\<close>.\<close>

definition precedes :: "event \<Rightarrow> event \<Rightarrow> event list \<Rightarrow> bool" where
  "precedes a b tr = (a \<in> set (takeWhile (\<lambda>e. e \<noteq> b) tr))"

subsection \<open>prepare, releasePreAllocation and the destructor\<close>

text \<open>
  \<open>find_kernel\<close> is what \<^verbatim>\<open>params_.find_kernel\<close> returns: the status, the device
  name it recorded and the kernel.
\<close>

record PrepareEnv =
  deviceMgr :: DeviceMgr
  find_kernel :: "Code \<times> string \<times> OpKernel option"

definition prepare ::
  "PrepareEnv \<Rightarrow> ResourceContext \<Rightarrow> ExecTask \<Rightarrow> fault + (bool \<times> ExecTask \<times> event list)" where
  "prepare env ctx t =
     (let t1 = t\<lparr>rctx := ctx\<rparr>;
          dev = spec (rctx t1)
      in if \<not> list_ex (\<lambda>ty. ty = type dev) (supportedTypes t1) then Inr (False, t1, [])
         else
           (case LookupDevice (deviceMgr env) dev of
              Inl err \<Rightarrow> Inr (False, t1, [LookupDeviceCall (device_name_of dev)])
            | Inr di \<Rightarrow>
                (if resMon (rctx t1) = None then Inl AssertionFailed
                 else
                   (let t2 = t1\<lparr>ditem := Some di, op_kernel := None\<rparr>;
                        evs = [LookupDeviceCall (device_name_of dev), CreatePerOpAllocDeviceCall,
                               CreateFRuntimeCall, SetResourceContextCall (rctx t1), FindKernelCall]
                    in case find_kernel env of
                         (ok, devName, found) \<Rightarrow>
                           (case found of
                              Some kern \<Rightarrow>
                                (if ok = OK then
                                   (if devName = [] then Inr (False, t2, evs)
                                    else if devName = name (item_device di)
                                    then Inr (True, t2\<lparr>op_kernel := Some kern\<rparr>, evs)
                                    else Inr (False, t2, evs))
                                 else Inr (True, t2\<lparr>op_kernel := Some kern\<rparr>, evs))
                            | None \<Rightarrow> Inr (True, t2, evs))))))"


text \<open>\<^verbatim>\<open>~ExecTask\<close>.\<close>

definition destroy :: "ExecTask \<Rightarrow> event list" where
  "destroy t = (case op_kernel t of Some kern \<Rightarrow> [DeleteKernelCall kern] | None \<Rightarrow> [])"

subsection \<open>run, maybeMemoryFailure and finish\<close>

text \<open>
  What the executor and the device return during one \<^verbatim>\<open>run\<close>. \<open>kernel_status\<close> is
  \<^verbatim>\<open>ctx.status()\<close> after the kernel; \<open>accessed_tensors_empty\<close> is whether
  \<^verbatim>\<open>retrieve_accessed_tensors\<close> gave an empty list; \<open>NodeDone\<close> is the
  \<^verbatim>\<open>completed\<close> flag it returns. \<^verbatim>\<open>ComputeAsync\<close> takes the completion callback;
  \<open>callback_inline\<close> tells whether the device invokes it before
  \<^verbatim>\<open>ComputeAsync\<close> returns or only after \<^verbatim>\<open>run\<close> has returned.
\<close>

record RunEnv =
  SetupKernel :: "Code \<times> OpKernel option"
  SetAllocAttrForNode :: Code
  PrepareInputs :: Code
  kernel_status :: Code
  ProcessOutputs :: "Code \<times> Entry list"
  accessed_tensors_empty :: bool
  NodeDone :: bool
  callback_inline :: bool

text \<open>
  \<^verbatim>\<open>done\<close> and \<^verbatim>\<open>launched\<close> are called unconditionally; \<^verbatim>\<open>memFailure\<close>
  is tested before it is called, \<open>memFailure cbs\<close> says it is not empty.
\<close>

record Callbacks =
  memFailure :: bool

definition maybeMemoryFailure ::
  "Code \<Rightarrow> bool \<Rightarrow> ExecTask \<Rightarrow> fault + (bool \<times> ExecTask \<times> event list)" where
  "maybeMemoryFailure s memFailure_cb t =
     (if s = RESOURCE_EXHAUSTED then
        (if has_ref_input t then Inl AssertionFailed
         else Inr (True, t\<lparr>failureTimes := failureTimes t + 1\<rparr>,
                   if memFailure_cb then [MemFailure] else []))
      else Inr (False, t, []))"

definition finish :: "RunEnv \<Rightarrow> Code \<Rightarrow> bool \<Rightarrow> ExecTask \<Rightarrow> ExecTask \<times> event list" where
  "finish env s isAsync t =
     (t\<lparr>completed := NodeDone env\<rparr>,
      [MaybeMarkCompletedCall, NodeDoneCall s (\<not> isAsync)]
      @ (if isAsync then (if NodeDone env then [ExecutorFinishCall] else []) else [Launched])
      @ [NotifyFinishedOps, Done])"

text \<open>The completion callback handed to \<^verbatim>\<open>ComputeAsync\<close>.\<close>

definition asyncDone ::
  "RunEnv \<Rightarrow> Callbacks \<Rightarrow> DeviceItem \<Rightarrow> ExecTask \<Rightarrow> fault + (ExecTask \<times> event list)" where
  "asyncDone env cbs di t =
     (case maybeMemoryFailure (kernel_status env) (memFailure cbs) t of
        Inl stop \<Rightarrow> Inl stop
      | Inr (failed, t1, evs) \<Rightarrow>
          (if failed then Inr (t1, evs)
           else
             (case ProcessOutputs env of
                (s, outs) \<Rightarrow>
                  Inr (t1,
                       [ProcessOutputsCall, ClearInputs]
                       @ (if s = OK then [PropagateOutputsCall outs] else [])
                       @ (if s = OK \<and> device_record_tensor_access di
                          then [ConsumeAccessedTensorsCall] else [])
                       @ [MaybeMarkCompletedCall, NodeDoneCall s False]
                       @ (if NodeDone env then [ExecutorFinishCall] else [])
                       @ [NotifyFinishedOps, Done]))))"

text \<open>The part of \<^verbatim>\<open>run\<close> under \<^verbatim>\<open>if (!launched_asynchronously)\<close>.\<close>

definition postprocess :: "RunEnv \<Rightarrow> Code \<Rightarrow> bool \<Rightarrow> ExecTask \<Rightarrow> ExecTask \<times> event list" where
  "postprocess env s accessed t =
     (case finish env s False (t\<lparr>outputs := []\<rparr>) of
        (t', fin) \<Rightarrow>
          (t', [ClearInputs]
               @ (if s = OK then [PropagateOutputsCall (outputs t)] else [])
               @ (if accessed then [ConsumeAccessedTensorsCall] else [])
               @ fin))"

text \<open>The synchronous branch, from \<^verbatim>\<open>Compute\<close> on.\<close>

definition compute_sync ::
  "RunEnv \<Rightarrow> Callbacks \<Rightarrow> DeviceItem \<Rightarrow> ExecTask \<Rightarrow> fault + (ExecTask \<times> event list)" where
  "compute_sync env cbs di t =
     (case maybeMemoryFailure (kernel_status env) (memFailure cbs) t of
        Inl stop \<Rightarrow> Inl stop
      | Inr (failed, t1, evs) \<Rightarrow>
          (if failed then Inr (t1, ComputeCall # evs)
           else
             (case ProcessOutputs env of
                (s, outs) \<Rightarrow>
                  (case postprocess env s
                          (s = OK \<and> device_record_tensor_access di \<and> \<not> accessed_tensors_empty env)
                          (t1\<lparr>outputs := outs\<rparr>) of
                     (t2, post) \<Rightarrow> Inr (t2, [ComputeCall, ProcessOutputsCall] @ post)))))"

text \<open>
  \<^verbatim>\<open>run\<close>. The third component of the result tells whether an asynchronous kernel
  was launched whose completion callback has not run yet.
\<close>

definition run ::
  "RunEnv \<Rightarrow> Callbacks \<Rightarrow> ExecTask \<Rightarrow> fault + (ExecTask \<times> event list \<times> bool)" where
  "run env cbs t =
     (case ditem t of
        None \<Rightarrow> Inl NullDevice
      | Some di \<Rightarrow>
          (case (case op_kernel t of
                   None \<Rightarrow> (fst (SetupKernel env), snd (SetupKernel env), [SetupKernelCall])
                 | Some k \<Rightarrow> (OK, Some k, [])) of
             (s0, k0, ev0) \<Rightarrow>
               (if s0 \<noteq> OK then
                  (case finish env s0 False (t\<lparr>op_kernel := k0\<rparr>) of
                     (t', fin) \<Rightarrow> Inr (t', ev0 @ fin, False))
                else
                  (case k0 of
                     None \<Rightarrow> Inl CheckFailed
                   | Some k \<Rightarrow>
                       (let node = tagged_node t;
                            t1 = t\<lparr>op_kernel := k0, kernel_is_async := AsAsync k,
                                   has_ref_input :=
                                     (has_ref_input t \<or> list_ex (\<lambda>r. r) (input_is_ref node))\<rparr>;
                            s1 = SetAllocAttrForNode env;
                            ev1 = ev0 @ [SetAllocAttrCall]
                        in if s1 \<noteq> OK then
                             (case finish env s1 False t1 of
                                (t', fin) \<Rightarrow> Inr (t', ev1 @ fin, False))
                           else if is_dead node \<and> \<not> IsTransferNode node then
                             (case postprocess env s1 False
                                     (t1\<lparr>outputs := replicate (num_outputs node) NoValue\<rparr>) of
                                (t', post) \<Rightarrow> Inr (t', ev1 @ post, False))
                           else
                             (let t2 = t1\<lparr>outputs := []\<rparr>;
                                  s2 = PrepareInputs env;
                                  ev2 = ev1 @ [PrepareInputsCall]
                              in if s2 \<noteq> OK then
                                   (case finish env s2 False t2 of
                                      (t', fin) \<Rightarrow> Inr (t', ev2 @ [ClearInputs] @ fin, False))
                                 else if kernel_is_async t2 then
                                   (if callback_inline env then
                                      (case asyncDone env cbs di t2 of
                                         Inl stop \<Rightarrow> Inl stop
                                       | Inr (t', cb) \<Rightarrow>
                                           Inr (t', ev2 @ [ComputeAsyncCall] @ cb @ [Launched], False))
                                    else Inr (t2, ev2 @ [ComputeAsyncCall, Launched], True))
                                 else
                                   (case compute_sync env cbs di t2 of
                                      Inl stop \<Rightarrow> Inl stop
                                    | Inr (t', evs) \<Rightarrow> Inr (t', ev2 @ evs, False))))))))"

text \<open>
  One run cycle: \<^verbatim>\<open>run\<close>, followed by the completion callback when the device
  invokes it after \<^verbatim>\<open>run\<close> has returned.
\<close>

definition run_cycle ::
  "RunEnv \<Rightarrow> Callbacks \<Rightarrow> ExecTask \<Rightarrow> fault + (ExecTask \<times> event list)" where
  "run_cycle env cbs t =
     (case run env cbs t of
        Inl stop \<Rightarrow> Inl stop
      | Inr (t1, evs, pending) \<Rightarrow>
          (if pending then
             (case ditem t1 of
                None \<Rightarrow> Inl NullDevice
              | Some di \<Rightarrow>
                  (case asyncDone env cbs di t1 of
                     Inl stop \<Rightarrow> Inl stop
                   | Inr (t2, cb) \<Rightarrow> Inr (t2, evs @ cb)))
           else Inr (t1, evs)))"

subsection \<open>Calls of the scheduler between two estimates\<close>




subsection \<open>The estimate in the words of the specification\<close>

text \<open>
  What the shape-inference path charges for one output, stated without the loops:
  nothing for an output of unknown rank; otherwise the product of the known dimensions
  (an unknown dimension is skipped, which leaves the product as it is) times the size of
  the element type, in 64-bit unsigned arithmetic. \<open>add_in_double acc cs\<close> adds the
  contributions \<open>cs\<close> to \<open>acc\<close> one after the other, each converted to \<^verbatim>\<open>double\<close> and
  each sum rounded to \<^verbatim>\<open>double\<close>. \<open>output_warnings i out\<close> is what is logged for the
  output of index \<open>i\<close>: one warning when its rank is unknown, otherwise one warning for
  each unknown dimension.
\<close>

definition known_dims_product :: "int option list \<Rightarrow> int" where
  "known_dims_product dims = prod_list (map (\<lambda>d. case d of None \<Rightarrow> 1 | Some v \<Rightarrow> v) dims)"

definition contribution :: "OutputInfo \<Rightarrow> nat" where
  "contribution out =
     (case shape out of
        None \<Rightarrow> 0
      | Some dims \<Rightarrow> nat ((known_dims_product dims * dtype_size out) mod 2 ^ 64))"

definition add_in_double :: "nat \<Rightarrow> nat list \<Rightarrow> nat" where
  "add_in_double acc cs = foldl (\<lambda>a c. round_to_double (a + round_to_double c)) acc cs"

definition rank_known :: "OutputInfo list \<Rightarrow> OutputInfo list" where
  "rank_known outs = filter (\<lambda>out. shape out \<noteq> None) outs"

definition output_warnings :: "nat \<times> OutputInfo \<Rightarrow> log_line list" where
  "output_warnings io =
     (case shape (snd io) of
        None \<Rightarrow> [WARN_unknown_rank (fst io)]
      | Some dims \<Rightarrow> replicate (count_list dims None) WARN_unknown_dimension)"

subsection \<open>Concrete devices, nodes, tasks and collaborators\<close>

definition gpu0 :: DeviceSpec where
  "gpu0 = \<lparr>type = GPU, id_no = 0\<rparr>"

definition cpu0 :: DeviceSpec where
  "cpu0 = \<lparr>type = CPU, id_no = 0\<rparr>"

definition mem :: "DeviceSpec \<Rightarrow> ResourceTag" where
  "mem d = \<lparr>rtype = MEMORY, device = d\<rparr>"

definition local_devices :: DeviceMgr where
  "local_devices n =
     (if n = ''CPU:0''
      then Inr \<lparr>name = ''/device:CPU:0'', RequiresRecordingAccessedTensors = False\<rparr>
      else if n = ''GPU:0''
      then Inr \<lparr>name = ''/device:GPU:0'', RequiresRecordingAccessedTensors = True\<rparr>
      else Inl NOT_FOUND)"

definition cpu_item :: DeviceItem where
  "cpu_item =
     \<lparr>item_device = \<lparr>name = ''/device:CPU:0'', RequiresRecordingAccessedTensors = False\<rparr>,
      device_record_tensor_access = False\<rparr>"

definition gpu_item :: DeviceItem where
  "gpu_item =
     \<lparr>item_device = \<lparr>name = ''/device:GPU:0'', RequiresRecordingAccessedTensors = True\<rparr>,
      device_record_tensor_access = True\<rparr>"

definition sync_kernel :: OpKernel where
  "sync_kernel = \<lparr>kernel_id = 1, AsAsync = False\<rparr>"

definition async_kernel :: OpKernel where
  "async_kernel = \<lparr>kernel_id = 2, AsAsync = True\<rparr>"

definition some_node :: TaggedNode where
  "some_node =
     \<lparr>is_dead = False, IsTransferNode = False, input_is_ref = [False, False], num_outputs = 1\<rparr>"

definition ref_input_node :: TaggedNode where
  "ref_input_node =
     \<lparr>is_dead = False, IsTransferNode = False, input_is_ref = [True, False], num_outputs = 1\<rparr>"

definition dead_node :: "bool \<Rightarrow> TaggedNode" where
  "dead_node transfer =
     \<lparr>is_dead = True, IsTransferNode = transfer, input_is_ref = [False], num_outputs = 2\<rparr>"

text \<open>A task as the constructor leaves it, before any estimate is cached.\<close>

definition new_task :: "int \<Rightarrow> TaggedNode \<Rightarrow> ExecTask" where
  "new_task maxf node =
     \<lparr>failureTimes = 0, maxFailures = maxf, cachedUsage = Map.empty,
      supportedTypes = [GPU, CPU], rctx = \<lparr>spec = cpu0, ticket = 0, resMon = None\<rparr>,
      ditem = None, op_kernel = None, kernel_is_async = False, has_ref_input = False,
      tagged_node = node, outputs = [], completed = False\<rparr>"

text \<open>A task after a successful \<^verbatim>\<open>prepare\<close> on \<open>gpu0\<close>.\<close>

definition prepared_task :: "OpKernel option \<Rightarrow> TaggedNode \<Rightarrow> ExecTask" where
  "prepared_task k node = (new_task 4 node)\<lparr>ditem := Some gpu_item, op_kernel := k\<rparr>"

text \<open>A task bound to \<open>cpu0\<close> under ticket 3, holding the kernel created there.\<close>

definition bound_to_cpu :: ExecTask where
  "bound_to_cpu =
     (new_task 4 some_node)\<lparr>rctx := \<lparr>spec = cpu0, ticket = 3, resMon = Some 1\<rparr>,
        ditem := Some cpu_item, op_kernel := Some sync_kernel\<rparr>"

definition gpu_ctx :: ResourceContext where
  "gpu_ctx = \<lparr>spec = gpu0, ticket = 7, resMon = Some 1\<rparr>"

definition pinned_on_cpu :: PrepareEnv where
  "pinned_on_cpu =
     \<lparr>deviceMgr = local_devices, find_kernel = (OK, ''/device:CPU:0'', Some sync_kernel)\<rparr>"


definition session_env :: "real \<Rightarrow> real \<Rightarrow> EstimateEnv" where
  "session_env tmp pers =
     \<lparr>session_usage = Some \<lparr>temporary = [mem gpu0 \<mapsto> tmp], persistant = [mem gpu0 \<mapsto> pers]\<rparr>,
      shapeForNode = None, est_deviceMgr = local_devices, MemoryTypesForNode = OK\<rparr>"

definition shape_env :: "OutputInfo list \<Rightarrow> EstimateEnv" where
  "shape_env outs =
     \<lparr>session_usage = None, shapeForNode = Some outs, est_deviceMgr = local_devices,
      MemoryTypesForNode = OK\<rparr>"

definition out_info :: "int option list option \<Rightarrow> int \<Rightarrow> MemoryType \<Rightarrow> OutputInfo" where
  "out_info shp sz mt = \<lparr>shape = shp, dtype_size = sz, mtype = mt\<rparr>"

definition run_env :: "Code \<Rightarrow> bool \<Rightarrow> RunEnv" where
  "run_env ks inl =
     \<lparr>SetupKernel = (OK, Some sync_kernel), SetAllocAttrForNode = OK, PrepareInputs = OK,
      kernel_status = ks, ProcessOutputs = (ks, [TensorValue 7]), accessed_tensors_empty = True,
      NodeDone = False, callback_inline = inl\<rparr>"

section \<open>Concrete collaborators evaluated\<close>

lemma device_name_gpu0: "device_name_of gpu0 = ''GPU:0''"
  by (simp add: device_name_of_def gpu0_def to_string_def)

lemma lookup_gpu0: "LookupDevice local_devices gpu0 = Inr gpu_item"
  by (simp add: LookupDevice_def device_name_gpu0 local_devices_def gpu_item_def)

lemma merge_single: "merge [k \<mapsto> a] [k \<mapsto> b] = [k \<mapsto> a + b]"
  by (auto simp: merge_def fun_eq_iff)

lemma scale_single: "scale [k \<mapsto> a] c = [k \<mapsto> a * c]"
  by (auto simp: scale_def fun_eq_iff)

section \<open>The empirical estimate\<close>

lemma sint_two_power: "n < 31 \<Longrightarrow> sint ((2::32 word) ^ n) = 2 ^ n"
proof -
  assume n: "n < 31"
  have lt: "(2::int) ^ n < 2 ^ 31"
    using n by (intro power_strict_increasing) simp_all
  have "sint ((2::32 word) ^ n) = sint (word_of_int (2 ^ n) :: 32 word)"
    by simp
  also have "\<dots> = signed_take_bit 31 (2 ^ n)"
    by (simp only: sint_sbintrunc') simp
  also have "\<dots> = 2 ^ n"
  proof (rule signed_take_bit_int_eq_self)
    have "- (2 ^ 31) \<le> (0::int)" by simp
    also have "(0::int) \<le> 2 ^ n" by simp
    finally show "- (2 ^ 31) \<le> (2::int) ^ n" .
    show "(2::int) ^ n < 2 ^ 31" by (rule lt)
  qed
  finally show ?thesis .
qed

lemma shl_int_small: "0 \<le> n \<Longrightarrow> n < 31 \<Longrightarrow> shl_int n = Some (2 ^ nat n)"
  by (simp add: shl_int_def sint_two_power)

lemma shl_int_31: "shl_int 31 = Some (- 2147483648)"
  by (simp add: shl_int_def)

lemma to_uint64_two_power: "n < 64 \<Longrightarrow> to_uint64 (2 ^ n) = 2 ^ n"
proof -
  assume n: "n < 64"
  have lt: "(2::int) ^ n < 2 ^ 64"
    using n by (intro power_strict_increasing) simp_all
  have "uint (word_of_int (2 ^ n) :: 64 word) = (2 ^ n) mod 2 ^ LENGTH(64)"
    by (rule uint_word_of_int)
  also have "\<dots> = 2 ^ n"
    using lt by simp
  finally have "nat (uint (word_of_int (2 ^ n) :: 64 word)) = 2 ^ n"
    by (simp add: nat_power_eq)
  then show ?thesis
    by (simp only: to_uint64_def unat_eq_nat_uint)
qed

text \<open>
  As long as the shift stays below 31 the short-cut scales the merged session usage by
  \<open>1 / 2 ^ (maxFailures + 1 - min failureTimes maxFailures)\<close>.
\<close>

lemma empirical_estimate_in_range:
  assumes "0 < failureTimes t" and "session_usage env = Some rm"
    and "maxFailures t + 1 - min (failureTimes t) (maxFailures t) < 31"
  shows "\<exists>t'. estimatedUsage env dev t =
     Inr (scale (merge (temporary rm) (persistant rm))
            (1 / 2 ^ nat (maxFailures t + 1 - min (failureTimes t) (maxFailures t))), t')"
proof -
  let ?f = "if failureTimes t > maxFailures t then maxFailures t else failureTimes t"
  have f: "?f = min (failureTimes t) (maxFailures t)"
    by (simp add: min_def)
  let ?n = "maxFailures t + 1 - ?f"
  have pos: "0 \<le> ?n" by simp
  have lt: "?n < 31" using assms(3) f by simp
  have sh: "shl_int ?n = Some (2 ^ nat ?n)"
    using pos lt by (rule shl_int_small)
  have u: "to_uint64 (2 ^ nat ?n) = 2 ^ nat ?n"
    using lt by (intro to_uint64_two_power) simp
  show ?thesis
    using assms(1,2) sh u f
    by (simp add: estimatedUsage_def estimatedUsage_logged_def failed_before_def Let_def)
qed


text \<open>
  Claim C1. For failure count \<open>k > 0\<close> and retry limit \<open>M\<close> the empirical estimate is the
  merged session usage scaled by \<open>1 / 2 ^ (M + 1 - min k M)\<close>. The source computes the
  divisor as \<^verbatim>\<open>1 << (maxFailures + 1 - f)\<close> on a 32-bit \<^verbatim>\<open>int\<close> and stores it in a
  \<^verbatim>\<open>uint64_t\<close>. With \<open>M = 31\<close> and \<open>k = 1\<close> the shift is by 31: the result is the most
  negative \<^verbatim>\<open>int\<close>, the divisor becomes \<open>2 ^ 64 - 2 ^ 31\<close>, and a merged usage of 1200
  is scaled to \<open>1200 / 18446744071562067968\<close>, not to \<open>1200 / 2 ^ 31\<close>.
\<close>

theorem estimatedUsage_shift_overflow:
  "estimatedUsage (session_env 1000 200) gpu0 ((new_task 31 some_node)\<lparr>failureTimes := 1\<rparr>)
     = Inr ([mem gpu0 \<mapsto> 1200 / 18446744071562067968],
            (new_task 31 some_node)\<lparr>failureTimes := 1,
               cachedUsage := [gpu0 \<mapsto> [mem gpu0 \<mapsto> 1200 / 18446744071562067968]]\<rparr>)
   \<and> (1200 / 18446744071562067968 :: real) \<noteq> 1200 / 2 ^ 31"
  by (simp add: estimatedUsage_def estimatedUsage_logged_def failed_before_def session_env_def new_task_def shl_int_31
        to_uint64_def merge_single scale_single)

section \<open>Run cycles\<close>

lemmas run_defs =
  run_cycle_def run_def compute_sync_def asyncDone_def postprocess_def finish_def
  maybeMemoryFailure_def

lemma run_sync_exhausted:
  "run_cycle (run_env RESOURCE_EXHAUSTED False) \<lparr>memFailure = True\<rparr>
       (prepared_task (Some sync_kernel) some_node)
     = Inr ((prepared_task (Some sync_kernel) some_node)\<lparr>failureTimes := 1\<rparr>,
            [SetAllocAttrCall, PrepareInputsCall, ComputeCall, MemFailure])"
  by (simp add: run_defs run_env_def prepared_task_def new_task_def some_node_def sync_kernel_def
        gpu_item_def)

lemma run_async_exhausted:
  "run_cycle (run_env RESOURCE_EXHAUSTED False) \<lparr>memFailure = True\<rparr>
       (prepared_task (Some async_kernel) some_node)
     = Inr ((prepared_task (Some async_kernel) some_node)\<lparr>kernel_is_async := True,
              failureTimes := 1\<rparr>,
            [SetAllocAttrCall, PrepareInputsCall, ComputeAsyncCall, Launched, MemFailure])"
  by (simp add: run_defs run_env_def prepared_task_def new_task_def some_node_def async_kernel_def
        gpu_item_def)

text \<open>
  \<^verbatim>\<open>run\<close> and the completion callback return unless the task was never prepared, the
  \<^verbatim>\<open>CHECK\<close> on the kernel fails, or the kernel ends with \<open>RESOURCE_EXHAUSTED\<close> on a
  task with a reference-typed input, which the assertion in \<^verbatim>\<open>maybeMemoryFailure\<close>
  excludes.
\<close>

lemma run_cycle_stops_on_assertions_only:
  assumes "run_cycle env cbs t = Inl stop"
  shows "(stop = NullDevice \<and> ditem t = None)
       \<or> (stop = CheckFailed \<and> op_kernel t = None \<and> SetupKernel env = (OK, None))
       \<or> (stop = AssertionFailed \<and> kernel_status env = RESOURCE_EXHAUSTED
            \<and> (has_ref_input t \<or> list_ex (\<lambda>r. r) (input_is_ref (tagged_node t))))"
  using assms
  by (auto simp: run_defs Let_def prod_eq_iff
           split: option.splits if_splits prod.splits sum.splits)

lemma exhausted_kernel_without_ref_input:
  assumes "ditem t = Some di"
    and "op_kernel t = Some k \<or> (op_kernel t = None \<and> SetupKernel env = (OK, Some k))"
    and "SetAllocAttrForNode env = OK"
    and "\<not> is_dead (tagged_node t) \<or> IsTransferNode (tagged_node t)"
    and "PrepareInputs env = OK"
    and "kernel_status env = RESOURCE_EXHAUSTED"
    and "memFailure cbs"
    and "\<not> (has_ref_input t \<or> list_ex (\<lambda>r. r) (input_is_ref (tagged_node t)))"
  shows "\<exists>t' tr. run_cycle env cbs t = Inr (t', tr)
       \<and> (ComputeCall \<in> set tr \<or> ComputeAsyncCall \<in> set tr)
       \<and> failureTimes t' = failureTimes t + 1
       \<and> count_list tr MemFailure = 1 \<and> Done \<notin> set tr"
  using assms
  by (auto simp: run_defs Let_def split: option.splits if_splits prod.splits sum.splits)

lemma exhausted_kernel_with_ref_input:
  assumes "ditem t = Some di"
    and "op_kernel t = Some k \<or> (op_kernel t = None \<and> SetupKernel env = (OK, Some k))"
    and "SetAllocAttrForNode env = OK"
    and "\<not> is_dead (tagged_node t) \<or> IsTransferNode (tagged_node t)"
    and "PrepareInputs env = OK"
    and "kernel_status env = RESOURCE_EXHAUSTED"
    and "has_ref_input t \<or> list_ex (\<lambda>r. r) (input_is_ref (tagged_node t))"
  shows "run_cycle env cbs t = Inl AssertionFailed"
  using assms
  by (auto simp: run_defs Let_def split: option.splits if_splits prod.splits sum.splits)

text \<open>
  Claim C2, as the code has it. Take a run cycle in which the kernel is run and completes
  with status \<open>RESOURCE_EXHAUSTED\<close>, with a \<^verbatim>\<open>memFailure\<close> callback supplied: the task
  is prepared, its kernel is at hand or set up without error, \<^verbatim>\<open>SetAllocAttrForNode\<close>
  and \<^verbatim>\<open>PrepareInputs\<close> succeed and the node is not a dead node other than a transfer
  node. If the node has no reference-typed input (and \<open>has_ref_input\<close> is not set), the
  cycle returns, the kernel was run, \<open>failureTimes\<close> has grown by exactly one,
  \<^verbatim>\<open>memFailure\<close> fired exactly once and \<^verbatim>\<open>done\<close> did not fire. If it has one,
  \<^verbatim>\<open>assert(!has_ref_input)\<close> stops the program.
\<close>

theorem memory_failure_fires_memFailure_only:
  assumes "ditem t = Some di"
    and "op_kernel t = Some k \<or> (op_kernel t = None \<and> SetupKernel env = (OK, Some k))"
    and "SetAllocAttrForNode env = OK"
    and "\<not> is_dead (tagged_node t) \<or> IsTransferNode (tagged_node t)"
    and "PrepareInputs env = OK"
    and "kernel_status env = RESOURCE_EXHAUSTED"
    and "memFailure cbs"
  shows "if has_ref_input t \<or> list_ex (\<lambda>r. r) (input_is_ref (tagged_node t))
         then run_cycle env cbs t = Inl AssertionFailed
         else (\<exists>t' tr. run_cycle env cbs t = Inr (t', tr)
                \<and> (ComputeCall \<in> set tr \<or> ComputeAsyncCall \<in> set tr)
                \<and> failureTimes t' = failureTimes t + 1
                \<and> count_list tr MemFailure = 1 \<and> Done \<notin> set tr)"
proof (cases "has_ref_input t \<or> list_ex (\<lambda>r. r) (input_is_ref (tagged_node t))")
  case True
  with exhausted_kernel_with_ref_input [OF assms(1-6)] show ?thesis
    by simp
next
  case False
  with exhausted_kernel_without_ref_input [OF assms] show ?thesis
    by simp
qed

text \<open>
  The witness takes a synchronous and an asynchronous kernel on a node without
  reference-typed inputs: the failure count goes from 0 to 1 and \<^verbatim>\<open>memFailure\<close> is
  the only callback besides \<^verbatim>\<open>launched\<close>.
\<close>

theorem memory_failure_fires_memFailure_only_witness:
  "(\<exists>t' tr. run_cycle (run_env RESOURCE_EXHAUSTED False) \<lparr>memFailure = True\<rparr>
               (prepared_task (Some sync_kernel) some_node) = Inr (t', tr)
        \<and> tr = [SetAllocAttrCall, PrepareInputsCall, ComputeCall, MemFailure]
        \<and> failureTimes t' = 1 \<and> count_list tr MemFailure = 1 \<and> Done \<notin> set tr)
   \<and> (\<exists>t' tr. run_cycle (run_env RESOURCE_EXHAUSTED False) \<lparr>memFailure = True\<rparr>
               (prepared_task (Some async_kernel) some_node) = Inr (t', tr)
        \<and> tr = [SetAllocAttrCall, PrepareInputsCall, ComputeAsyncCall, Launched, MemFailure]
        \<and> failureTimes t' = 1 \<and> count_list tr MemFailure = 1 \<and> Done \<notin> set tr)"
proof -
  let ?env = "run_env RESOURCE_EXHAUSTED False"
  let ?cbs = "\<lparr>memFailure = True\<rparr>"
  have env: "SetAllocAttrForNode ?env = OK" "PrepareInputs ?env = OK"
    "kernel_status ?env = RESOURCE_EXHAUSTED"
    by (simp_all add: run_env_def)
  have cb: "memFailure ?cbs"
    by simp
  have node: "\<And>k. tagged_node (prepared_task k some_node) = some_node"
    "\<And>k. \<not> has_ref_input (prepared_task k some_node)"
    "\<And>k. ditem (prepared_task k some_node) = Some gpu_item"
    "\<And>k. op_kernel (prepared_task k some_node) = k"
    "\<And>k. failureTimes (prepared_task k some_node) = 0"
    by (simp_all add: prepared_task_def new_task_def)
  have alive: "\<not> is_dead some_node" "\<not> list_ex (\<lambda>r. r) (input_is_ref some_node)"
    by (simp_all add: some_node_def)
  have sync: "\<exists>t' tr. run_cycle ?env ?cbs (prepared_task (Some sync_kernel) some_node) = Inr (t', tr)
        \<and> (ComputeCall \<in> set tr \<or> ComputeAsyncCall \<in> set tr)
        \<and> failureTimes t' = failureTimes (prepared_task (Some sync_kernel) some_node) + 1
        \<and> count_list tr MemFailure = 1 \<and> Done \<notin> set tr"
    using memory_failure_fires_memFailure_only
            [where t = "prepared_task (Some sync_kernel) some_node" and env = ?env and cbs = ?cbs
               and di = gpu_item and k = sync_kernel]
          env cb node alive
    by simp
  have async: "\<exists>t' tr. run_cycle ?env ?cbs (prepared_task (Some async_kernel) some_node) = Inr (t', tr)
        \<and> (ComputeCall \<in> set tr \<or> ComputeAsyncCall \<in> set tr)
        \<and> failureTimes t' = failureTimes (prepared_task (Some async_kernel) some_node) + 1
        \<and> count_list tr MemFailure = 1 \<and> Done \<notin> set tr"
    using memory_failure_fires_memFailure_only
            [where t = "prepared_task (Some async_kernel) some_node" and env = ?env and cbs = ?cbs
               and di = gpu_item and k = async_kernel]
          env cb node alive
    by simp
  from sync async show ?thesis
    by (simp add: run_sync_exhausted run_async_exhausted node)
qed

text \<open>
  Claim C2 as stated fails on a node with a reference-typed input: the kernel ends with
  \<open>RESOURCE_EXHAUSTED\<close>, a \<^verbatim>\<open>memFailure\<close> callback is supplied, and the assertion in
  \<^verbatim>\<open>maybeMemoryFailure\<close> stops the program before the failure count is touched or the
  callback called.
\<close>

theorem memory_failure_ref_input_counterexample:
  "input_is_ref (tagged_node (prepared_task (Some sync_kernel) ref_input_node)) = [True, False]
   \<and> kernel_status (run_env RESOURCE_EXHAUSTED False) = RESOURCE_EXHAUSTED
   \<and> memFailure \<lparr>memFailure = True\<rparr>
   \<and> run_cycle (run_env RESOURCE_EXHAUSTED False) \<lparr>memFailure = True\<rparr>
       (prepared_task (Some sync_kernel) ref_input_node) = Inl AssertionFailed"
  by (simp add: run_defs run_env_def prepared_task_def new_task_def ref_input_node_def
        sync_kernel_def gpu_item_def)

section \<open>The shape-inference estimate\<close>

lemma as_resources_empty: "as_resources Map.empty = Map.empty"
  by (simp add: as_resources_def)

lemma as_resources_single: "as_resources [k \<mapsto> n] = [k \<mapsto> real n]"
  by (auto simp: as_resources_def fun_eq_iff)

lemma round_to_double_small: "n < 2 ^ 53 \<Longrightarrow> round_to_double n = n"
  by (simp add: round_to_double_def)

lemma count_dims_product:
  "count_dims dims c =
     (c * word_of_int (known_dims_product dims),
      replicate (count_list dims None) WARN_unknown_dimension)"
proof (induction dims arbitrary: c)
  case Nil
  then show ?case by (simp add: known_dims_product_def)
next
  case (Cons d dims)
  then show ?case
    by (cases d) (simp_all add: known_dims_product_def mult.assoc)
qed

lemma unat_product: "unat (word_of_int p * word_of_int s :: 64 word) = nat ((p * s) mod 2 ^ 64)"
proof -
  have "word_of_int p * word_of_int s = (word_of_int (p * s) :: 64 word)"
    by simp
  then have "uint (word_of_int p * word_of_int s :: 64 word) = (p * s) mod 2 ^ 64"
    by (simp only: uint_word_of_int) simp
  then show ?thesis
    by (simp only: unat_eq_nat_uint)
qed

lemma subtotal_contribution:
  assumes "shape out = Some dims"
  shows "subtotal (fst (count_dims dims 1)) (dtype_size out) = round_to_double (contribution out)"
  using assms by (simp add: subtotal_def contribution_def count_dims_product unat_product)

lemma warnings_known_rank:
  assumes "shape out = Some dims"
  shows "snd (count_dims dims 1) = output_warnings (i, out)"
  using assms by (simp add: output_warnings_def count_dims_product)

text \<open>With both tags equal, as the source builds them, the loop sums into one entry.\<close>

lemma charge_outputs_same_tag:
  "charge_outputs ok tag tag i outs res =
     (if rank_known outs = [] then res
      else res(tag \<mapsto> add_in_double (case res tag of None \<Rightarrow> 0 | Some old \<Rightarrow> old)
                          (map contribution (rank_known outs))),
      concat (map output_warnings (enumerate i outs)))"
proof (induction outs arbitrary: res i)
  case Nil
  then show ?case by (simp add: rank_known_def)
next
  case (Cons out outs)
  show ?case
  proof (cases "shape out")
    case None
    then show ?thesis
      using Cons.IH [of "Suc i" res] by (simp add: rank_known_def output_warnings_def)
  next
    case (Some dims)
    let ?old = "case res tag of None \<Rightarrow> 0 | Some old \<Rightarrow> old"
    let ?c = "contribution out"
    let ?res1 = "add_to res tag (round_to_double ?c)"
    obtain count lg1 where cd: "count_dims dims 1 = (count, lg1)"
      by (cases "count_dims dims 1")
    have lg1: "lg1 = output_warnings (i, out)"
      using warnings_known_rank [OF Some, of i] cd by simp
    have st: "subtotal count (dtype_size out) = round_to_double ?c"
      using subtotal_contribution [OF Some] cd by simp
    obtain res' lg where rest: "charge_outputs ok tag tag (Suc i) outs ?res1 = (res', lg)"
      by (cases "charge_outputs ok tag tag (Suc i) outs ?res1")
    have step: "charge_outputs ok tag tag i (out # outs) res = (res', lg1 @ lg)"
      using Some cd st rest by simp
    have r1: "?res1 tag = Some (round_to_double (?old + round_to_double ?c))"
      by (simp add: add_to_def)
    have known: "rank_known (out # outs) = out # rank_known outs"
      using Some by (simp add: rank_known_def)
    have ih: "(res', lg) =
        (if rank_known outs = [] then ?res1
         else ?res1(tag \<mapsto> add_in_double (case ?res1 tag of None \<Rightarrow> 0 | Some old \<Rightarrow> old)
                               (map contribution (rank_known outs))),
         concat (map output_warnings (enumerate (Suc i) outs)))"
      using Cons.IH [of "Suc i" ?res1] rest by simp
    have "res' = res(tag \<mapsto> add_in_double ?old (map contribution (rank_known (out # outs))))"
      using ih r1 by (simp add: known add_in_double_def add_to_def)
    moreover have "lg = concat (map output_warnings (enumerate (Suc i) outs))"
      using ih by simp
    ultimately have full: "charge_outputs ok tag tag i (out # outs) res =
        (res(tag \<mapsto> add_in_double ?old (map contribution (rank_known (out # outs)))),
         output_warnings (i, out) @ concat (map output_warnings (enumerate (Suc i) outs)))"
      using step lg1 by (simp only:)
    have ne: "rank_known (out # outs) \<noteq> []"
      using known by simp
    show ?thesis
      by (subst full) (simp add: ne)
  qed
qed

lemma add_in_double_exact:
  "acc + sum_list cs < 2 ^ 53 \<Longrightarrow> add_in_double acc cs = acc + sum_list cs"
proof (induction cs arbitrary: acc)
  case Nil
  then show ?case by (simp add: add_in_double_def)
next
  case (Cons c cs)
  have c: "c < 2 ^ 53" and ac: "acc + c < 2 ^ 53" and rest: "(acc + c) + sum_list cs < 2 ^ 53"
    using Cons.prems by simp_all
  have "add_in_double acc (c # cs) = add_in_double (round_to_double (acc + round_to_double c)) cs"
    by (simp add: add_in_double_def)
  also have "\<dots> = add_in_double (acc + c) cs"
    using c ac by (simp add: round_to_double_small)
  also have "\<dots> = (acc + c) + sum_list cs"
    using rest by (rule Cons.IH)
  finally show ?case by simp
qed

lemma contribution_rank_known:
  "sum_list (map contribution (rank_known outs)) = sum_list (map contribution outs)"
  by (induction outs) (simp_all add: rank_known_def contribution_def)

lemma shape_estimate_host_output:
  "estimatedUsage (shape_env [out_info (Some [Some 2, Some 3]) 4 HOST_MEMORY]) gpu0
       (new_task 4 some_node)
     = Inr ([mem gpu0 \<mapsto> 24],
            (new_task 4 some_node)\<lparr>cachedUsage := [gpu0 \<mapsto> [mem gpu0 \<mapsto> 24]]\<rparr>)"
  by (simp add: estimatedUsage_def estimatedUsage_logged_def failed_before_def slow_path_def
        shape_env_def new_task_def out_info_def add_to_def subtotal_def round_to_double_def
        as_resources_single mem_def Let_def)

text \<open>
  Claim C3. In the shape-inference path an output that the memory-type lookup reports
  as \<open>HOST_MEMORY\<close> is to be charged to the memory of the CPU. The source builds
  \<^verbatim>\<open>cpuTag\<close> from \<open>dev\<close>, exactly as \<^verbatim>\<open>devTag\<close>: on \<open>gpu0\<close>, with a successful
  lookup, a host-memory output of shape \<open>[2, 3]\<close> and four-byte elements is charged, 24
  bytes, to the memory of \<open>gpu0\<close>, and the memory of \<open>cpu0\<close> is charged nothing.
\<close>

theorem host_memory_charged_to_device:
  "mtypeStatus_ok (shape_env [out_info (Some [Some 2, Some 3]) 4 HOST_MEMORY]) gpu0
   \<and> estimatedUsage (shape_env [out_info (Some [Some 2, Some 3]) 4 HOST_MEMORY]) gpu0
       (new_task 4 some_node)
     = Inr ([mem gpu0 \<mapsto> 24],
            (new_task 4 some_node)\<lparr>cachedUsage := [gpu0 \<mapsto> [mem gpu0 \<mapsto> 24]]\<rparr>)
   \<and> [mem gpu0 \<mapsto> (24::real)] (mem cpu0) = None"
proof (intro conjI)
  show "mtypeStatus_ok (shape_env [out_info (Some [Some 2, Some 3]) 4 HOST_MEMORY]) gpu0"
    by (simp add: mtypeStatus_ok_def shape_env_def lookup_gpu0)
  show "estimatedUsage (shape_env [out_info (Some [Some 2, Some 3]) 4 HOST_MEMORY]) gpu0
       (new_task 4 some_node)
     = Inr ([mem gpu0 \<mapsto> 24],
            (new_task 4 some_node)\<lparr>cachedUsage := [gpu0 \<mapsto> [mem gpu0 \<mapsto> 24]]\<rparr>)"
    by (rule shape_estimate_host_output)
  show "[mem gpu0 \<mapsto> (24::real)] (mem cpu0) = None"
    by (simp add: mem_def gpu0_def cpu0_def)
qed

section \<open>Order of callbacks, dead nodes\<close>

lemma notify_before_done:
  assumes "run_cycle env cbs t = Inr (t', tr)" and "Done \<in> set tr"
  shows "precedes NotifyFinishedOps Done tr"
  using assms
  by (auto simp: run_defs Let_def precedes_def split: option.splits if_splits prod.splits sum.splits)

lemma propagate_before_done:
  assumes "run_cycle env cbs t = Inr (t', tr)" and "Done \<in> set tr"
  shows "\<not> list_ex is_propagate (dropWhile (\<lambda>e. e \<noteq> Done) tr)"
    and "(\<exists>inl. NodeDoneCall OK inl \<in> set tr) \<longrightarrow>
           list_ex is_propagate (takeWhile (\<lambda>e. e \<noteq> Done) tr)"
  using assms
  by (auto simp: run_defs Let_def split: option.splits if_splits prod.splits sum.splits)

lemma launched_before_done:
  assumes "run_cycle env cbs t = Inr (t', tr)" and "Done \<in> set tr"
    and "ComputeAsyncCall \<notin> set tr \<or> \<not> callback_inline env"
  shows "precedes Launched Done tr"
  using assms
  by (auto simp: run_defs Let_def precedes_def split: option.splits if_splits prod.splits sum.splits)

text \<open>
  Claim C4, as the code has it. In every run cycle that ends in \<^verbatim>\<open>done\<close>:
  \<^verbatim>\<open>num_finished_ops.notify()\<close> comes before \<^verbatim>\<open>done\<close>; no output is propagated after
  \<^verbatim>\<open>done\<close>, and when the status handed to \<^verbatim>\<open>NodeDone\<close> is OK the outputs were
  propagated before \<^verbatim>\<open>done\<close>; \<^verbatim>\<open>launched\<close> comes before \<^verbatim>\<open>done\<close> when the kernel
  is synchronous, and for an asynchronous kernel when the device invokes the completion
  callback only after \<^verbatim>\<open>run\<close> has returned.
\<close>

theorem order_of_callbacks:
  assumes "run_cycle env cbs t = Inr (t', tr)" and "Done \<in> set tr"
  shows "precedes NotifyFinishedOps Done tr
       \<and> \<not> list_ex is_propagate (dropWhile (\<lambda>e. e \<noteq> Done) tr)
       \<and> ((\<exists>inl. NodeDoneCall OK inl \<in> set tr) \<longrightarrow>
            list_ex is_propagate (takeWhile (\<lambda>e. e \<noteq> Done) tr))
       \<and> (ComputeAsyncCall \<notin> set tr \<or> \<not> callback_inline env \<longrightarrow> precedes Launched Done tr)"
proof (intro conjI impI)
  show "precedes NotifyFinishedOps Done tr"
    using assms by (rule notify_before_done)
  show "\<not> list_ex is_propagate (dropWhile (\<lambda>e. e \<noteq> Done) tr)"
    using assms by (rule propagate_before_done(1))
  show "list_ex is_propagate (takeWhile (\<lambda>e. e \<noteq> Done) tr)"
    if "\<exists>inl. NodeDoneCall OK inl \<in> set tr"
    using propagate_before_done(2) [OF assms] that by blast
  show "precedes Launched Done tr"
    if "ComputeAsyncCall \<notin> set tr \<or> \<not> callback_inline env"
    using assms that by (rule launched_before_done)
qed

lemma run_sync_ok:
  "run_cycle (run_env OK False) \<lparr>memFailure = True\<rparr> (prepared_task (Some sync_kernel) some_node)
     = Inr (prepared_task (Some sync_kernel) some_node,
            [SetAllocAttrCall, PrepareInputsCall, ComputeCall, ProcessOutputsCall, ClearInputs,
             PropagateOutputsCall [TensorValue 7], MaybeMarkCompletedCall, NodeDoneCall OK True,
             Launched, NotifyFinishedOps, Done])"
  by (simp add: run_defs run_env_def prepared_task_def new_task_def some_node_def sync_kernel_def
        gpu_item_def)

theorem order_of_callbacks_witness:
  "run_cycle (run_env OK False) \<lparr>memFailure = True\<rparr> (prepared_task (Some sync_kernel) some_node)
     = Inr (prepared_task (Some sync_kernel) some_node,
            [SetAllocAttrCall, PrepareInputsCall, ComputeCall, ProcessOutputsCall, ClearInputs,
             PropagateOutputsCall [TensorValue 7], MaybeMarkCompletedCall, NodeDoneCall OK True,
             Launched, NotifyFinishedOps, Done])
   \<and> precedes NotifyFinishedOps Done
        [SetAllocAttrCall, PrepareInputsCall, ComputeCall, ProcessOutputsCall, ClearInputs,
         PropagateOutputsCall [TensorValue 7], MaybeMarkCompletedCall, NodeDoneCall OK True,
         Launched, NotifyFinishedOps, Done]
   \<and> list_ex is_propagate (takeWhile (\<lambda>e. e \<noteq> Done)
        [SetAllocAttrCall, PrepareInputsCall, ComputeCall, ProcessOutputsCall, ClearInputs,
         PropagateOutputsCall [TensorValue 7], MaybeMarkCompletedCall, NodeDoneCall OK True,
         Launched, NotifyFinishedOps, Done])
   \<and> precedes Launched Done
        [SetAllocAttrCall, PrepareInputsCall, ComputeCall, ProcessOutputsCall, ClearInputs,
         PropagateOutputsCall [TensorValue 7], MaybeMarkCompletedCall, NodeDoneCall OK True,
         Launched, NotifyFinishedOps, Done]"
proof -
  let ?tr = "[SetAllocAttrCall, PrepareInputsCall, ComputeCall, ProcessOutputsCall, ClearInputs,
         PropagateOutputsCall [TensorValue 7], MaybeMarkCompletedCall, NodeDoneCall OK True,
         Launched, NotifyFinishedOps, Done]"
  have d: "Done \<in> set ?tr" by simp
  have n: "\<exists>inl. NodeDoneCall OK inl \<in> set ?tr"
    by (rule exI [of _ True]) simp
  have s: "ComputeAsyncCall \<notin> set ?tr \<or> \<not> callback_inline (run_env OK False)" by simp
  from order_of_callbacks [OF run_sync_ok d] n s
  show ?thesis
    using run_sync_ok by blast
qed

text \<open>
  Claim C4 as stated fails for an asynchronous kernel whose completion callback the
  device invokes before \<^verbatim>\<open>ComputeAsync\<close> returns: \<^verbatim>\<open>done\<close> fires inside the
  callback, \<^verbatim>\<open>launched\<close> only at the end of \<^verbatim>\<open>run\<close>.
\<close>

theorem launched_after_done_counterexample:
  "run_cycle (run_env OK True) \<lparr>memFailure = True\<rparr> (prepared_task (Some async_kernel) some_node)
     = Inr ((prepared_task (Some async_kernel) some_node)\<lparr>kernel_is_async := True\<rparr>,
            [SetAllocAttrCall, PrepareInputsCall, ComputeAsyncCall, ProcessOutputsCall, ClearInputs,
             PropagateOutputsCall [TensorValue 7], ConsumeAccessedTensorsCall,
             MaybeMarkCompletedCall, NodeDoneCall OK False, NotifyFinishedOps, Done, Launched])
   \<and> \<not> precedes Launched Done
        [SetAllocAttrCall, PrepareInputsCall, ComputeAsyncCall, ProcessOutputsCall, ClearInputs,
         PropagateOutputsCall [TensorValue 7], ConsumeAccessedTensorsCall,
         MaybeMarkCompletedCall, NodeDoneCall OK False, NotifyFinishedOps, Done, Launched]"
  by (simp add: run_defs run_env_def prepared_task_def new_task_def some_node_def async_kernel_def
        gpu_item_def precedes_def)








lemma run_dead_transfer_node_inputs_fail:
  "run_cycle ((run_env OK False)\<lparr>PrepareInputs := INVALID_ARGUMENT\<rparr>) \<lparr>memFailure = True\<rparr>
       (prepared_task (Some sync_kernel) (dead_node True))
     = Inr (prepared_task (Some sync_kernel) (dead_node True),
            [SetAllocAttrCall, PrepareInputsCall, ClearInputs, MaybeMarkCompletedCall,
             NodeDoneCall INVALID_ARGUMENT True, Launched, NotifyFinishedOps, Done])"
  by (simp add: run_defs run_env_def prepared_task_def new_task_def dead_node_def sync_kernel_def
        gpu_item_def)



text \<open>
  Without a \<^verbatim>\<open>memFailure\<close> callback a kernel that ends with \<open>RESOURCE_EXHAUSTED\<close>
  leaves the cycle without any of \<^verbatim>\<open>done\<close>, \<^verbatim>\<open>memFailure\<close> and the notification
  of \<^verbatim>\<open>num_finished_ops\<close>, whether the kernel is synchronous or not.
\<close>

lemma exhausted_without_memFailure:
  assumes "run_cycle env cbs t = Inr (t', tr)"
    and "ComputeCall \<in> set tr \<or> ComputeAsyncCall \<in> set tr"
    and "kernel_status env = RESOURCE_EXHAUSTED"
    and "\<not> memFailure cbs"
  shows "Done \<notin> set tr \<and> MemFailure \<notin> set tr \<and> NotifyFinishedOps \<notin> set tr"
  using assms
  by (auto simp: run_defs Let_def split: option.splits if_splits prod.splits sum.splits)

text \<open>
  Claim C7. When the kernel completes with \<open>RESOURCE_EXHAUSTED\<close> and no
  \<^verbatim>\<open>memFailure\<close> callback was supplied, the status is to reach the caller through
  \<^verbatim>\<open>done\<close>. In the source \<^verbatim>\<open>maybeMemoryFailure\<close> returns true whether or not the
  callback is set, and \<^verbatim>\<open>run\<close> returns at once: for a synchronous kernel the failure
  count becomes 1 and the cycle ends after \<^verbatim>\<open>Compute\<close>, with neither \<^verbatim>\<open>done\<close> nor
  \<^verbatim>\<open>memFailure\<close> (nor \<^verbatim>\<open>launched\<close>, nor the notification of
  \<^verbatim>\<open>num_finished_ops\<close>).
\<close>

theorem exhausted_without_memFailure_fires_nothing:
  "run_cycle (run_env RESOURCE_EXHAUSTED False) \<lparr>memFailure = False\<rparr>
       (prepared_task (Some sync_kernel) some_node)
     = Inr ((prepared_task (Some sync_kernel) some_node)\<lparr>failureTimes := 1\<rparr>,
            [SetAllocAttrCall, PrepareInputsCall, ComputeCall])
   \<and> Done \<notin> set [SetAllocAttrCall, PrepareInputsCall, ComputeCall]
   \<and> MemFailure \<notin> set [SetAllocAttrCall, PrepareInputsCall, ComputeCall]"
  by (simp add: run_defs run_env_def prepared_task_def new_task_def some_node_def sync_kernel_def
        gpu_item_def)

section \<open>prepare and releasePreAllocation\<close>

text \<open>\<^verbatim>\<open>prepare\<close> returns unless its assertion on the monitor fails.\<close>

lemma prepare_stops_on_assertion_only:
  assumes "prepare env ctx t = Inl stop"
  shows "stop = AssertionFailed \<and> resMon ctx = None"
  using assms
  by (auto simp: prepare_def Let_def split: sum.splits option.splits prod.splits if_splits)

lemma prepare_mismatch:
  "prepare pinned_on_cpu gpu_ctx bound_to_cpu =
     Inr (False, bound_to_cpu\<lparr>rctx := gpu_ctx, ditem := Some gpu_item, op_kernel := None\<rparr>,
          [LookupDeviceCall ''GPU:0'', CreatePerOpAllocDeviceCall, CreateFRuntimeCall,
           SetResourceContextCall gpu_ctx, FindKernelCall])"
proof -
  have sp: "spec gpu_ctx = gpu0" "resMon gpu_ctx = Some 1"
    by (simp_all add: gpu_ctx_def)
  have sup: "list_ex (\<lambda>ty. ty = type gpu0) (supportedTypes (bound_to_cpu\<lparr>rctx := gpu_ctx\<rparr>))"
    by (simp add: bound_to_cpu_def new_task_def gpu0_def)
  have nm: "name (item_device gpu_item) = ''/device:GPU:0''"
    by (simp add: gpu_item_def)
  show ?thesis
    using sup
    by (simp add: prepare_def Let_def sp pinned_on_cpu_def lookup_gpu0 device_name_gpu0 nm)
qed

text \<open>
  Claim C6. \<^verbatim>\<open>prepare(ctx)\<close> returns false whenever the device kind of \<open>ctx\<close> is not
  among the supported types, whenever the device lookup fails, or whenever the registry
  holds a kernel for the node recorded under a device name other than that of the device
  of \<open>ctx\<close>. It makes no call on the resource monitor and deletes no kernel; once it has
  probed the registry and returns false the task holds no kernel, so that its destructor
  deletes none either and the kernel stays in the registry. The registry is probed only
  after \<^verbatim>\<open>assert(rctx.resMon != nullptr)\<close>, so in the third case the context carries a
  monitor.
\<close>

theorem prepare_rejects:
  assumes "\<not> list_ex (\<lambda>ty. ty = type (spec ctx)) (supportedTypes t)
       \<or> (\<exists>err. LookupDevice (deviceMgr env) (spec ctx) = Inl err)
       \<or> (\<exists>m di devName kern. resMon ctx = Some m
            \<and> LookupDevice (deviceMgr env) (spec ctx) = Inr di
            \<and> find_kernel env = (OK, devName, Some kern) \<and> devName \<noteq> name (item_device di))"
  shows "\<exists>t' evs. prepare env ctx t = Inr (False, t', evs)
       \<and> \<not> list_ex on_monitor evs \<and> \<not> list_ex is_delete_kernel evs
       \<and> (FindKernelCall \<in> set evs \<longrightarrow> op_kernel t' = None \<and> destroy t' = [])"
  using assms
  by (auto simp: prepare_def Let_def destroy_def split: sum.splits option.splits prod.splits)

theorem prepare_rejects_witness:
  "resMon gpu_ctx = Some 1
   \<and> LookupDevice (deviceMgr pinned_on_cpu) (spec gpu_ctx) = Inr gpu_item
   \<and> find_kernel pinned_on_cpu = (OK, ''/device:CPU:0'', Some sync_kernel)
   \<and> ''/device:CPU:0'' \<noteq> name (item_device gpu_item)
   \<and> (\<exists>t' evs. prepare pinned_on_cpu gpu_ctx bound_to_cpu = Inr (False, t', evs)
       \<and> \<not> list_ex on_monitor evs \<and> \<not> list_ex is_delete_kernel evs
       \<and> FindKernelCall \<in> set evs \<and> op_kernel t' = None \<and> destroy t' = [])"
proof -
  have h1: "resMon gpu_ctx = Some 1"
    by (simp add: gpu_ctx_def)
  have h2: "LookupDevice (deviceMgr pinned_on_cpu) (spec gpu_ctx) = Inr gpu_item"
    by (simp add: pinned_on_cpu_def gpu_ctx_def lookup_gpu0)
  have h3: "find_kernel pinned_on_cpu = (OK, ''/device:CPU:0'', Some sync_kernel)"
    by (simp add: pinned_on_cpu_def)
  have h4: "''/device:CPU:0'' \<noteq> name (item_device gpu_item)"
    by (simp add: gpu_item_def)
  from prepare_rejects [where ctx = gpu_ctx and t = bound_to_cpu and env = pinned_on_cpu]
    h1 h2 h3 h4
  obtain t' evs where r: "prepare pinned_on_cpu gpu_ctx bound_to_cpu = Inr (False, t', evs)"
    and m: "\<not> list_ex on_monitor evs" "\<not> list_ex is_delete_kernel evs"
    and k: "FindKernelCall \<in> set evs \<longrightarrow> op_kernel t' = None \<and> destroy t' = []"
    by blast
  have "FindKernelCall \<in> set evs"
    using r by (auto simp: prepare_mismatch)
  with r m k h1 h2 h3 h4 show ?thesis
    by blast
qed



section \<open>Unknown dimensions and the cache\<close>

text \<open>
  The conversion to \<^verbatim>\<open>double\<close> rounds: one output of \<open>2 ^ 53 + 1\<close> elements of one
  byte is estimated at \<open>2 ^ 53\<close> bytes.
\<close>

lemma bit_length_54: "bit_length 9007199254740993 = 54"
  by simp

lemma shape_estimate_rounds:
  "estimatedUsage (shape_env [out_info (Some [Some 9007199254740993]) 1 DEVICE_MEMORY]) gpu0
       (new_task 4 some_node)
     = Inr ([mem gpu0 \<mapsto> 9007199254740992],
            (new_task 4 some_node)\<lparr>cachedUsage := [gpu0 \<mapsto> [mem gpu0 \<mapsto> 9007199254740992]]\<rparr>)"
  by (simp add: estimatedUsage_def estimatedUsage_logged_def failed_before_def slow_path_def
        shape_env_def new_task_def out_info_def add_to_def subtotal_def round_to_double_def
        bit_length_54 as_resources_single mem_def Let_def)

lemma fully_known_product: "known_dims_product (map Some ds) = prod_list ds"
  by (induction ds) (simp_all add: known_dims_product_def)

lemma fully_known_count: "count_list (map Some ds) None = 0"
  by (induction ds) simp_all

text \<open>
  Claim C8, as the code has it. In the shape-inference path (no failure so far, or no
  session usage, and nothing cached for the device) the estimate and the log are these.
  An output of unknown rank adds nothing to the estimate, and one warning naming its
  index is logged for it. An output of known rank adds the product of its known
  dimensions times the size of its element type, computed in 64-bit unsigned arithmetic
  and converted to \<^verbatim>\<open>double\<close>; each of its unknown dimensions is skipped and one
  warning is logged for it; so an output of fully known shape adds the product of its
  dimensions times the element size and logs nothing. The contributions are added in
  \<^verbatim>\<open>double\<close> arithmetic, to the one entry \<open>(MEMORY, dev)\<close>; the sum is exact when the
  exact total is below \<open>2 ^ 53\<close>. The estimate is empty when no output has a known rank.
  Before these warnings the log holds the error of a missing session usage, if the task
  has failed before, and what the lookup of the memory types logs.
\<close>

theorem shape_estimate:
  assumes "failureTimes t \<le> 0 \<or> session_usage env = None"
    and "cachedUsage t dev = None" and "shapeForNode env = Some outs"
  shows "(\<exists>t'. estimatedUsage_logged env dev t =
            Inr (if rank_known outs = [] then Map.empty
                 else [\<lparr>rtype = MEMORY, device = dev\<rparr> \<mapsto>
                         real (add_in_double 0 (map contribution (rank_known outs)))],
                 t',
                 (if 0 < failureTimes t then [ERR_no_session_usage] else [])
                 @ mtypeStatus_log env dev
                 @ concat (map output_warnings (enumerate 0 outs))))
       \<and> (sum_list (map contribution outs) < 2 ^ 53 \<longrightarrow>
            add_in_double 0 (map contribution (rank_known outs))
              = sum_list (map contribution outs))
       \<and> (shape out = None \<longrightarrow>
            contribution out = 0 \<and> output_warnings (i, out) = [WARN_unknown_rank i])
       \<and> (shape out = Some dims \<longrightarrow>
            contribution out = nat ((known_dims_product dims * dtype_size out) mod 2 ^ 64)
            \<and> output_warnings (i, out) = replicate (count_list dims None) WARN_unknown_dimension)
       \<and> (shape out = Some (map Some ds) \<longrightarrow>
            contribution out = nat ((prod_list ds * dtype_size out) mod 2 ^ 64)
            \<and> output_warnings (i, out) = [])"
proof (intro conjI impI)
  have fb: "failed_before env dev t
              = Inr (t, if 0 < failureTimes t then [ERR_no_session_usage] else [])"
    using assms(1) by (auto simp: failed_before_def)
  show "\<exists>t'. estimatedUsage_logged env dev t =
            Inr (if rank_known outs = [] then Map.empty
                 else [\<lparr>rtype = MEMORY, device = dev\<rparr> \<mapsto>
                         real (add_in_double 0 (map contribution (rank_known outs)))],
                 t',
                 (if 0 < failureTimes t then [ERR_no_session_usage] else [])
                 @ mtypeStatus_log env dev
                 @ concat (map output_warnings (enumerate 0 outs)))"
    using assms(2,3)
    by (simp add: estimatedUsage_logged_def fb slow_path_def charge_outputs_same_tag Let_def
          as_resources_empty as_resources_single)
next
  assume "sum_list (map contribution outs) < 2 ^ 53"
  then have "0 + sum_list (map contribution (rank_known outs)) < 2 ^ 53"
    by (simp add: contribution_rank_known)
  then have "add_in_double 0 (map contribution (rank_known outs))
               = 0 + sum_list (map contribution (rank_known outs))"
    by (rule add_in_double_exact)
  then show "add_in_double 0 (map contribution (rank_known outs))
               = sum_list (map contribution outs)"
    by (simp add: contribution_rank_known)
next
  assume "shape out = None"
  then show "contribution out = 0" "output_warnings (i, out) = [WARN_unknown_rank i]"
    by (simp_all add: contribution_def output_warnings_def)
next
  assume "shape out = Some dims"
  then show "contribution out = nat ((known_dims_product dims * dtype_size out) mod 2 ^ 64)"
    "output_warnings (i, out) = replicate (count_list dims None) WARN_unknown_dimension"
    by (simp_all add: contribution_def output_warnings_def)
next
  assume "shape out = Some (map Some ds)"
  then show "contribution out = nat ((prod_list ds * dtype_size out) mod 2 ^ 64)"
    "output_warnings (i, out) = []"
    by (simp_all add: contribution_def output_warnings_def fully_known_product
          fully_known_count)
qed

text \<open>
  The witness takes three outputs of four-byte elements: one of unknown rank, one of
  shape \<open>[2, 3]\<close> and one of shape \<open>[?, 3]\<close>. They add 0, 24 and 12 bytes, and the log
  holds the warning for output 0 and one warning for the unknown dimension.
\<close>

theorem shape_estimate_witness:
  "failureTimes (new_task 4 some_node) \<le> 0
   \<and> cachedUsage (new_task 4 some_node) gpu0 = None
   \<and> contribution (out_info None 4 DEVICE_MEMORY) = 0
   \<and> contribution (out_info (Some [Some 2, Some 3]) 4 DEVICE_MEMORY) = 24
   \<and> contribution (out_info (Some [None, Some 3]) 4 DEVICE_MEMORY) = 12
   \<and> (\<exists>t'. estimatedUsage_logged
              (shape_env [out_info None 4 DEVICE_MEMORY,
                          out_info (Some [Some 2, Some 3]) 4 DEVICE_MEMORY,
                          out_info (Some [None, Some 3]) 4 DEVICE_MEMORY])
              gpu0 (new_task 4 some_node)
            = Inr ([mem gpu0 \<mapsto> 36], t', [WARN_unknown_rank 0, WARN_unknown_dimension]))"
proof -
  let ?outs = "[out_info None 4 DEVICE_MEMORY, out_info (Some [Some 2, Some 3]) 4 DEVICE_MEMORY,
                out_info (Some [None, Some 3]) 4 DEVICE_MEMORY]"
  have f: "failureTimes (new_task 4 some_node) \<le> 0 \<or> session_usage (shape_env ?outs) = None"
    and f0: "failureTimes (new_task 4 some_node) = 0"
    and c: "cachedUsage (new_task 4 some_node) gpu0 = None"
    and s: "shapeForNode (shape_env ?outs) = Some ?outs"
    by (simp_all add: new_task_def shape_env_def)
  have c1: "contribution (out_info None 4 DEVICE_MEMORY) = 0"
    and c2: "contribution (out_info (Some [Some 2, Some 3]) 4 DEVICE_MEMORY) = 24"
    and c3: "contribution (out_info (Some [None, Some 3]) 4 DEVICE_MEMORY) = 12"
    by (simp_all add: contribution_def out_info_def known_dims_product_def)
  have known: "rank_known ?outs = [out_info (Some [Some 2, Some 3]) 4 DEVICE_MEMORY,
                                   out_info (Some [None, Some 3]) 4 DEVICE_MEMORY]"
    by (simp add: rank_known_def out_info_def)
  have total: "sum_list (map contribution ?outs) = 36"
    using c1 c2 c3 by simp
  have warn: "concat (map output_warnings (enumerate 0 ?outs))
                = [WARN_unknown_rank 0, WARN_unknown_dimension]"
    by (simp add: output_warnings_def out_info_def)
  have lookup: "mtypeStatus_log (shape_env ?outs) gpu0 = []"
    by (simp add: mtypeStatus_log_def shape_env_def lookup_gpu0)
  from shape_estimate [OF f c s]
  obtain t' where e: "estimatedUsage_logged (shape_env ?outs) gpu0 (new_task 4 some_node) =
            Inr (if rank_known ?outs = [] then Map.empty
                 else [\<lparr>rtype = MEMORY, device = gpu0\<rparr> \<mapsto>
                         real (add_in_double 0 (map contribution (rank_known ?outs)))],
                 t',
                 (if 0 < failureTimes (new_task 4 some_node) then [ERR_no_session_usage] else [])
                 @ mtypeStatus_log (shape_env ?outs) gpu0
                 @ concat (map output_warnings (enumerate 0 ?outs)))"
    and x: "sum_list (map contribution ?outs) < 2 ^ 53 \<longrightarrow>
            add_in_double 0 (map contribution (rank_known ?outs))
              = sum_list (map contribution ?outs)"
    by blast
  have sum: "add_in_double 0 (map contribution (rank_known ?outs)) = 36"
    using x total by simp
  have ne: "rank_known ?outs \<noteq> []"
    using known by simp
  have "estimatedUsage_logged (shape_env ?outs) gpu0 (new_task 4 some_node)
          = Inr ([mem gpu0 \<mapsto> 36], t', [WARN_unknown_rank 0, WARN_unknown_dimension])"
    using e by (simp only: sum warn lookup f0 ne mem_def if_False less_irrefl append_Nil) simp
  then have "\<exists>t'. estimatedUsage_logged (shape_env ?outs) gpu0 (new_task 4 some_node)
          = Inr ([mem gpu0 \<mapsto> 36], t', [WARN_unknown_rank 0, WARN_unknown_dimension])"
    by blast
  with f0 c c1 c2 c3 show ?thesis
    by simp
qed

text \<open>
  Claim C8 as stated fails for an output with an unknown dimension: the shape
  \<open>[?, 3]\<close> with four-byte elements is charged 12 bytes, not zero.
\<close>

theorem unknown_dimension_counterexample:
  "estimatedUsage (shape_env [out_info (Some [None, Some 3]) 4 DEVICE_MEMORY]) gpu0
       (new_task 4 some_node)
     = Inr ([mem gpu0 \<mapsto> 12],
            (new_task 4 some_node)\<lparr>cachedUsage := [gpu0 \<mapsto> [mem gpu0 \<mapsto> 12]]\<rparr>)"
  by (simp add: estimatedUsage_def estimatedUsage_logged_def failed_before_def slow_path_def
        shape_env_def new_task_def out_info_def add_to_def subtotal_def round_to_double_def
        as_resources_single mem_def Let_def)



lemma run_cycle_failure_count:
  assumes "run_cycle env cbs t = Inr (t', tr)"
  shows "failureTimes t' =
           (if (ComputeCall \<in> set tr \<or> ComputeAsyncCall \<in> set tr)
               \<and> kernel_status env = RESOURCE_EXHAUSTED
            then failureTimes t + 1 else failureTimes t)"
  using assms
  by (auto simp: run_defs Let_def split: option.splits if_splits prod.splits sum.splits)












end
